theory Spec2Isabelle
  imports Main "HOL-Library.Word" "HOL-Library.Finite_Map"
begin

section \<open>Data model of main.go\<close>

text \<open>
  Go's \<open>int\<close> is modelled as \<open>int\<close>: main.go never does arithmetic on its integers, it only
  compares them (\<open>quantity >= event.Quantity\<close>, \<open>quantity > 0\<close>) and hands them to SQL, so no
  wrap-around can happen in the Go code, and every Go \<open>int\<close> is an \<open>int\<close>. The only
  subtraction is the SQL expression \<open>quantity - $1\<close>, evaluated by the store; a statement the
  store refuses (a value out of the column's range included) is a failed statement below.
  \<open>float64\<close> is its IEEE-754 bit pattern; the code never reads \<open>Total\<close>.
\<close>

type_synonym float64 = "64 word"

type_synonym time = nat

text \<open>
  \<open>type Inventory struct\<close> (main.go, lines 17-20); fields \<open>ProductID\<close> and
  \<open>Quantity\<close>, prefixed to keep them apart from the event's.
\<close>

record Inventory =
  inv_ProductID :: int
  inv_Quantity :: int

text \<open>\<open>type OrderCreatedEvent struct\<close> (lines 91-97).\<close>

record OrderCreatedEvent =
  OrderID :: int
  UserID :: int
  ProductID :: int
  Quantity :: int
  Total :: float64

text \<open>\<open>type InventoryReservedEvent struct\<close> (lines 99-103); the fields carry their JSON names.\<close>

record InventoryReservedEvent =
  orderId :: int
  status :: string
  message :: string

text \<open>
  Modelled from the spec: the declaration of table \<open>inventories\<close> is not in the repository.
  The SQL statements of main.go name its columns \<open>product_id\<close>, \<open>quantity\<close> and
  \<open>updated_at\<close>; the spec says "one relational table keyed by productID with columns
  quantity and updatedAt". So the table is a finite map from \<open>product_id\<close> to a row, an
  \<open>INSERT\<close> of a \<open>product_id\<close> already present is refused, and no constraint on
  \<open>quantity\<close> is assumed (main.go relies on none).
\<close>

record StockRecord =
  row_quantity :: int
  row_updated_at :: time

type_synonym inventories_table = "(int, StockRecord) fmap"

text \<open>The errors a call into the store, the driver or the broker can return.\<close>

datatype error = ErrNoRows | ErrStore | ErrUniqueViolation | ErrParam | ErrBroker

text \<open>The two output topics of \<open>initKafkaWriters\<close> (lines 161-170).\<close>

datatype topic = Topic_inventory_reserved | Topic_inventory_failed

text \<open>
  The lines the consumer loop logs, one constructor per \<open>log.Println\<close> or
  \<open>log.Printf\<close> of \<open>consumeOrderCreated\<close>, in source order (lines 116, 122, 126, 134,
  148, 151).
\<close>

datatype log_line =
  LogKafkaReadError
  | LogUnmarshalError
  | LogReceived OrderCreatedEvent
  | LogProductMissing int
  | LogReserved int
  | LogNotEnough int

text \<open>
  A row mutation the store has committed: the reservation's decrement (product, amount), an
  insert and an overwrite of the quantity (product, quantity, time).
\<close>

datatype mutation =
  Decremented int int
  | Inserted int int time
  | QuantitySet int int time

text \<open>
  Everything the process acts on: the table, the store's history of committed row mutations
  (it tells an applied decrement of amount 0 from no decrement), the records the broker has
  accepted on the output topics, in order, and the process log.
\<close>

record world =
  inventories :: inventories_table
  committed :: "mutation list"
  broker :: "(topic \<times> InventoryReservedEvent) list"
  logs :: "log_line list"

definition log_Println :: "log_line \<Rightarrow> world \<Rightarrow> world" where
  "log_Println l w = w\<lparr>logs := logs w @ [l]\<rparr>"

section \<open>The store\<close>

text \<open>
  Each call takes a flag \<open>fails\<close>: the call fails for a reason outside the table's
  contents (connectivity, timeout, a value the store refuses). A failed statement commits
  nothing.

  \<open>db.QueryRow(ctx, SELECT quantity FROM inventories WHERE product_id=$1, pid).Scan(&quantity)\<close>
  (lines 44-45 and 130-131).
\<close>

definition QueryRow_quantity :: "bool \<Rightarrow> int \<Rightarrow> world \<Rightarrow> error + int" where
  "QueryRow_quantity fails pid w =
     (if fails then Inl ErrStore
      else case fmlookup (inventories w) pid of
        None \<Rightarrow> Inl ErrNoRows
      | Some r \<Rightarrow> Inr (row_quantity r))"

text \<open>
  \<open>db.Exec(ctx, UPDATE inventories SET quantity = quantity - $1 WHERE product_id=$2, amount, pid)\<close>
  (lines 141-143). The statement has no condition on the quantity. The result is the error
  or the number of rows affected; an \<open>UPDATE\<close> that matches no row is no error.
\<close>

definition Exec_decrement :: "bool \<Rightarrow> int \<Rightarrow> int \<Rightarrow> world \<Rightarrow> (error + nat) \<times> world" where
  "Exec_decrement fails amount pid w =
     (if fails then (Inl ErrStore, w)
      else case fmlookup (inventories w) pid of
        None \<Rightarrow> (Inr 0, w)
      | Some r \<Rightarrow>
          (Inr 1,
           w\<lparr>inventories := fmupd pid (r\<lparr>row_quantity := row_quantity r - amount\<rparr>) (inventories w),
             committed := committed w @ [Decremented pid amount]\<rparr>))"

text \<open>
  \<open>db.Exec(ctx, INSERT INTO inventories (product_id, quantity, updated_at) VALUES ($1, $2, $3), ...)\<close>
  (lines 60-62).
\<close>

definition Exec_insert :: "bool \<Rightarrow> int \<Rightarrow> int \<Rightarrow> time \<Rightarrow> world \<Rightarrow> (error + nat) \<times> world" where
  "Exec_insert fails pid q now w =
     (if fails then (Inl ErrStore, w)
      else case fmlookup (inventories w) pid of
        Some r \<Rightarrow> (Inl ErrUniqueViolation, w)
      | None \<Rightarrow>
          (Inr 1,
           w\<lparr>inventories := fmupd pid \<lparr>row_quantity = q, row_updated_at = now\<rparr> (inventories w),
             committed := committed w @ [Inserted pid q now]\<rparr>))"

text \<open>
  \<open>db.Exec(ctx, UPDATE inventories SET quantity = $1, updated_at = $2 WHERE product_id = $3, ...)\<close>
  (lines 79-81).
\<close>

definition Exec_set_quantity :: "bool \<Rightarrow> int \<Rightarrow> time \<Rightarrow> int \<Rightarrow> world \<Rightarrow> (error + nat) \<times> world" where
  "Exec_set_quantity fails q now pid w =
     (if fails then (Inl ErrStore, w)
      else case fmlookup (inventories w) pid of
        None \<Rightarrow> (Inr 0, w)
      | Some r \<Rightarrow>
          (Inr 1,
           w\<lparr>inventories := fmupd pid \<lparr>row_quantity = q, row_updated_at = now\<rparr> (inventories w),
             committed := committed w @ [QuantitySet pid q now]\<rparr>))"

section \<open>The producers (lines 157-182)\<close>

text \<open>
  \<open>writer.WriteMessages(ctx, kafka.Message{Value: data})\<close>: the record is appended to the
  writer's topic, or the call returns an error and appends nothing. \<open>json.Marshal\<close> of an
  \<open>InventoryReservedEvent\<close> cannot fail and loses nothing, so the record is kept as the
  struct.
\<close>

definition WriteMessages :: "bool \<Rightarrow> topic \<Rightarrow> InventoryReservedEvent \<Rightarrow> world \<Rightarrow> error option \<times> world" where
  "WriteMessages fails t event w =
     (if fails then (Some ErrBroker, w)
      else (None, w\<lparr>broker := broker w @ [(t, event)]\<rparr>))"

text \<open>
  \<open>publishInventoryReserved\<close> (lines 172-176) and \<open>publishInventoryFailed\<close> (lines 178-182)
  have no result, and \<open>_ = writer.WriteMessages(...)\<close> drops the write's error: \<open>snd\<close>.
\<close>

definition publishInventoryReserved :: "bool \<Rightarrow> int \<Rightarrow> string \<Rightarrow> world \<Rightarrow> world" where
  "publishInventoryReserved fails orderID msg w =
     (let event = \<lparr>orderId = orderID, status = ''RESERVED'', message = msg\<rparr>
      in snd (WriteMessages fails Topic_inventory_reserved event w))"

definition publishInventoryFailed :: "bool \<Rightarrow> int \<Rightarrow> string \<Rightarrow> world \<Rightarrow> world" where
  "publishInventoryFailed fails orderID msg w =
     (let event = \<lparr>orderId = orderID, status = ''FAILED'', message = msg\<rparr>
      in snd (WriteMessages fails Topic_inventory_failed event w))"

section \<open>The consumer loop (lines 106-155)\<close>

text \<open>
  What the store and the broker do to the calls of one iteration: whether the \<open>SELECT\<close>,
  the \<open>UPDATE\<close> and the topic write fail.
\<close>

record infra =
  query_err :: bool
  exec_err :: bool
  write_err :: bool

text \<open>
  Lines 126-131: the event is logged and the quantity is read. The result is what
  \<open>err\<close> and \<open>quantity\<close> hold after \<open>Scan\<close>.
\<close>

definition consumeOrderCreated_check :: "infra \<Rightarrow> OrderCreatedEvent \<Rightarrow> world \<Rightarrow> (error + int) \<times> world" where
  "consumeOrderCreated_check env event w =
     (let w1 = log_Println (LogReceived event) w
      in (QueryRow_quantity (query_err env) (ProductID event) w1, w1))"

text \<open>
  Lines 133-153: the decision on what the read returned, the update and the one publish of
  each branch.
\<close>

definition consumeOrderCreated_decide :: "infra \<Rightarrow> OrderCreatedEvent \<Rightarrow> error + int \<Rightarrow> world \<Rightarrow> world" where
  "consumeOrderCreated_decide env event res w =
     (case res of
        Inl err \<Rightarrow>
          publishInventoryFailed (write_err env) (OrderID event) ''Product not found''
            (log_Println (LogProductMissing (ProductID event)) w)
      | Inr quantity \<Rightarrow>
          if quantity \<ge> Quantity event then
            (case Exec_decrement (exec_err env) (Quantity event) (ProductID event) w of
               (Inl err, w1) \<Rightarrow>
                 publishInventoryFailed (write_err env) (OrderID event) ''Cannot reserve inventory'' w1
             | (Inr tag, w1) \<Rightarrow>
                 publishInventoryReserved (write_err env) (OrderID event) ''Reserved successfully''
                   (log_Println (LogReserved (OrderID event)) w1))
          else
            publishInventoryFailed (write_err env) (OrderID event) ''Not enough stock''
              (log_Println (LogNotEnough (OrderID event)) w))"

text \<open>Lines 126-153 run without interruption: what one iteration does with a decoded event.\<close>

definition consumeOrderCreated_event :: "infra \<Rightarrow> OrderCreatedEvent \<Rightarrow> world \<Rightarrow> world" where
  "consumeOrderCreated_event env event w =
     (case consumeOrderCreated_check env event w of
        (res, w1) \<Rightarrow> consumeOrderCreated_decide env event res w1)"

text \<open>
  One iteration (lines 114-153). \<open>rd\<close> is what \<open>r.ReadMessage\<close> returned (\<open>None\<close>: an
  error), \<open>unmarshal\<close> is \<open>json.Unmarshal\<close> into an \<open>OrderCreatedEvent\<close> (\<open>None\<close>: an
  error); both failures are logged and the loop goes on.
\<close>

definition consumeOrderCreated_step ::
  "('m \<Rightarrow> OrderCreatedEvent option) \<Rightarrow> infra \<Rightarrow> 'm option \<Rightarrow> world \<Rightarrow> world" where
  "consumeOrderCreated_step unmarshal env rd w =
     (case rd of
        None \<Rightarrow> log_Println LogKafkaReadError w
      | Some m \<Rightarrow>
          (case unmarshal m of
             None \<Rightarrow> log_Println LogUnmarshalError w
           | Some event \<Rightarrow> consumeOrderCreated_event env event w))"

text \<open>
  The loop \<open>for { ... }\<close> never returns; its run over the first deliveries is the
  iterations in order, each with what the infrastructure did during it.
\<close>

fun consumeOrderCreated ::
  "('m \<Rightarrow> OrderCreatedEvent option) \<Rightarrow> (infra \<times> 'm option) list \<Rightarrow> world \<Rightarrow> world" where
  "consumeOrderCreated unmarshal [] w = w"
| "consumeOrderCreated unmarshal ((env, rd) # ds) w =
     consumeOrderCreated unmarshal ds (consumeOrderCreated_step unmarshal env rd w)"

section \<open>The HTTP handlers (lines 39-87)\<close>

datatype body = NoBody | Text string | AvailableQuantity bool int

record response =
  status_code :: nat
  payload :: body

text \<open>\<open>http.Error(w, msg, code)\<close>: the status and the message followed by a newline.\<close>

definition http_Error :: "string \<Rightarrow> nat \<Rightarrow> response" where
  "http_Error msg c = \<lparr>status_code = c, payload = Text (msg @ [CHR 0x0A])\<rparr>"

text \<open>
  The handlers pass the path variable \<open>product_id\<close>, a string, as the statement's
  parameter; \<open>param\<close> is the driver's and the store's reading of it as a value of column
  \<open>product_id\<close> (\<open>None\<close>: refused, the call returns an error).

  \<open>getInventory\<close> (lines 39-54): any error of the read is answered 404; otherwise the
  JSON object with \<open>available\<close> and \<open>quantity\<close>, status 200.
\<close>

definition getInventory :: "(string \<Rightarrow> int option) \<Rightarrow> bool \<Rightarrow> string \<Rightarrow> world \<Rightarrow> response" where
  "getInventory param fails productID w =
     (case (case param productID of
              None \<Rightarrow> Inl ErrParam
            | Some pid \<Rightarrow> QueryRow_quantity fails pid w) of
        Inl err \<Rightarrow> http_Error ''Product not found'' 404
      | Inr quantity \<Rightarrow> \<lparr>status_code = 200, payload = AvailableQuantity (quantity > 0) quantity\<rparr>)"

text \<open>
  \<open>createInventory\<close> (lines 56-70). \<open>inventory\<close> is the variable \<open>inv\<close> after
  \<open>json.NewDecoder(r.Body).Decode(&inv)\<close>, whose error the handler ignores; \<open>now\<close> is
  \<open>time.Now()\<close>.
\<close>

definition createInventory :: "bool \<Rightarrow> time \<Rightarrow> Inventory \<Rightarrow> world \<Rightarrow> response \<times> world" where
  "createInventory fails now inventory w =
     (case Exec_insert fails (inv_ProductID inventory) (inv_Quantity inventory) now w of
        (Inl err, w1) \<Rightarrow> (http_Error ''Insert failed'' 400, w1)
      | (Inr tag, w1) \<Rightarrow> (\<lparr>status_code = 201, payload = NoBody\<rparr>, w1))"

text \<open>\<open>updateInventory\<close> (lines 72-87); a success writes nothing, which is status 200.\<close>

definition updateInventory ::
  "(string \<Rightarrow> int option) \<Rightarrow> bool \<Rightarrow> time \<Rightarrow> string \<Rightarrow> Inventory \<Rightarrow> world \<Rightarrow> response \<times> world" where
  "updateInventory param fails now productID inventory w =
     (case (case param productID of
              None \<Rightarrow> (Inl ErrParam, w)
            | Some pid \<Rightarrow> Exec_set_quantity fails (inv_Quantity inventory) now pid w) of
        (Inl err, w1) \<Rightarrow> (http_Error ''Update failed'' 400, w1)
      | (Inr tag, w1) \<Rightarrow> (\<lparr>status_code = 200, payload = NoBody\<rparr>, w1))"

section \<open>Schedules\<close>

text \<open>
  The consumer loop runs in a goroutine of its own (\<open>go consumeOrderCreated()\<close>, line 190)
  beside the HTTP handlers, and the reader joins a consumer group; the store is what they
  share. Between the read of lines 130-131 and the update of lines 141-143 another task can
  write to the table. Two such schedules, built from the pieces of the iteration:

  two consumers of the group, each running lines 126-153 on its own event against the same
  store, both reads done before either update;
\<close>

definition two_consumers_reads_first ::
  "infra \<Rightarrow> OrderCreatedEvent \<Rightarrow> infra \<Rightarrow> OrderCreatedEvent \<Rightarrow> world \<Rightarrow> world" where
  "two_consumers_reads_first envA eventA envB eventB w =
     (case consumeOrderCreated_check envA eventA w of
        (resA, w1) \<Rightarrow>
          (case consumeOrderCreated_check envB eventB w1 of
             (resB, w2) \<Rightarrow>
               consumeOrderCreated_decide envB eventB resB
                 (consumeOrderCreated_decide envA eventA resA w2)))"

text \<open>
  and one call of an HTTP handler that commits between the read and the update of an
  iteration.
\<close>

definition handler_between_read_and_update ::
  "infra \<Rightarrow> OrderCreatedEvent \<Rightarrow> (world \<Rightarrow> response \<times> world) \<Rightarrow> world \<Rightarrow> world" where
  "handler_between_read_and_update env event handler w =
     (case consumeOrderCreated_check env event w of
        (res, w1) \<Rightarrow> consumeOrderCreated_decide env event res (snd (handler w1)))"

section \<open>The invariant of the table\<close>

text \<open>Every row of the table has a quantity of at least 0.\<close>

definition quantity_nonneg :: "world \<Rightarrow> bool" where
  "quantity_nonneg w = fmpred (\<lambda>pid r. 0 \<le> row_quantity r) (inventories w)"

section \<open>Concrete inputs\<close>

text \<open>An iteration during which the store and the broker answer every call.\<close>

definition infra_ok :: infra where
  "infra_ok = \<lparr>query_err = False, exec_err = False, write_err = False\<rparr>"

text \<open>A fresh process whose table holds one row: product \<open>pid\<close> with quantity \<open>q\<close>.\<close>

definition stock_of :: "int \<Rightarrow> int \<Rightarrow> world" where
  "stock_of pid q =
     \<lparr>inventories = fmupd pid \<lparr>row_quantity = q, row_updated_at = 0\<rparr> fmempty,
      committed = [], broker = [], logs = []\<rparr>"

text \<open>Order \<open>oid\<close> of user 7 for \<open>q\<close> units of product \<open>pid\<close>.\<close>

definition order_for :: "int \<Rightarrow> int \<Rightarrow> int \<Rightarrow> OrderCreatedEvent" where
  "order_for oid pid q = \<lparr>OrderID = oid, UserID = 7, ProductID = pid, Quantity = q, Total = 0\<rparr>"

text \<open>A reading of the path variable that accepts the text 42 only.\<close>

definition param_42 :: "string \<Rightarrow> int option" where
  "param_42 s = (if s = ''42'' then Some 42 else None)"

section \<open>Properties\<close>

subsection \<open>The paths of one iteration\<close>

lemmas model_defs =
  consumeOrderCreated_event_def consumeOrderCreated_check_def consumeOrderCreated_decide_def
  QueryRow_quantity_def Exec_decrement_def publishInventoryReserved_def
  publishInventoryFailed_def WriteMessages_def log_Println_def

lemmas example_defs = infra_ok_def stock_of_def order_for_def

lemma step_decoded:
  "unmarshal m = Some event \<Longrightarrow>
   consumeOrderCreated_step unmarshal env (Some m) w = consumeOrderCreated_event env event w"
  by (simp add: consumeOrderCreated_step_def)

lemma event_reserved:
  assumes "fmlookup (inventories w) (ProductID event) = Some r"
    and "Quantity event \<le> row_quantity r"
    and "\<not> query_err env" and "\<not> exec_err env"
  shows "consumeOrderCreated_event env event w =
     w\<lparr>inventories :=
         fmupd (ProductID event) (r\<lparr>row_quantity := row_quantity r - Quantity event\<rparr>) (inventories w),
       committed := committed w @ [Decremented (ProductID event) (Quantity event)],
       broker := broker w @
         (if write_err env then []
          else [(Topic_inventory_reserved,
                 \<lparr>orderId = OrderID event, status = ''RESERVED'', message = ''Reserved successfully''\<rparr>)]),
       logs := logs w @ [LogReceived event, LogReserved (OrderID event)]\<rparr>"
  using assms by (simp add: model_defs)

lemma event_exec_failed:
  assumes "fmlookup (inventories w) (ProductID event) = Some r"
    and "Quantity event \<le> row_quantity r"
    and "\<not> query_err env" and "exec_err env"
  shows "consumeOrderCreated_event env event w =
     w\<lparr>broker := broker w @
         (if write_err env then []
          else [(Topic_inventory_failed,
                 \<lparr>orderId = OrderID event, status = ''FAILED'', message = ''Cannot reserve inventory''\<rparr>)]),
       logs := logs w @ [LogReceived event]\<rparr>"
  using assms by (simp add: model_defs)

lemma event_not_enough:
  assumes "fmlookup (inventories w) (ProductID event) = Some r"
    and "row_quantity r < Quantity event"
    and "\<not> query_err env"
  shows "consumeOrderCreated_event env event w =
     w\<lparr>broker := broker w @
         (if write_err env then []
          else [(Topic_inventory_failed,
                 \<lparr>orderId = OrderID event, status = ''FAILED'', message = ''Not enough stock''\<rparr>)]),
       logs := logs w @ [LogReceived event, LogNotEnough (OrderID event)]\<rparr>"
  using assms by (simp add: model_defs)

lemma event_not_found:
  assumes "query_err env \<or> fmlookup (inventories w) (ProductID event) = None"
  shows "consumeOrderCreated_event env event w =
     w\<lparr>broker := broker w @
         (if write_err env then []
          else [(Topic_inventory_failed,
                 \<lparr>orderId = OrderID event, status = ''FAILED'', message = ''Product not found''\<rparr>)]),
       logs := logs w @ [LogReceived event, LogProductMissing (ProductID event)]\<rparr>"
  using assms by (cases "query_err env") (simp_all add: model_defs)

lemma event_failed_unchanged:
  assumes "broker (consumeOrderCreated_event env event w) = broker w @ [(t, out)]"
    and "status out = ''FAILED''"
  shows "inventories (consumeOrderCreated_event env event w) = inventories w
       \<and> committed (consumeOrderCreated_event env event w) = committed w"
proof -
  consider
    (missing) "query_err env \<or> fmlookup (inventories w) (ProductID event) = None"
    | (short) r where "\<not> query_err env" "fmlookup (inventories w) (ProductID event) = Some r"
        "row_quantity r < Quantity event"
    | (refused) r where "\<not> query_err env" "fmlookup (inventories w) (ProductID event) = Some r"
        "Quantity event \<le> row_quantity r" "exec_err env"
    | (reserved) r where "\<not> query_err env" "fmlookup (inventories w) (ProductID event) = Some r"
        "Quantity event \<le> row_quantity r" "\<not> exec_err env"
    by (cases "fmlookup (inventories w) (ProductID event)") force+
  then show ?thesis
  proof cases
    case missing
    then show ?thesis by (simp add: event_not_found)
  next
    case short
    then show ?thesis by (simp add: event_not_enough)
  next
    case refused
    then show ?thesis by (simp add: event_exec_failed)
  next
    case reserved
    with assms have False
      by (auto simp add: event_reserved split: if_splits)
    then show ?thesis ..
  qed
qed

subsection \<open>Outcome correspondence\<close>

text \<open>
  C1, as the code has it. For every decoded event, one iteration decides one outcome, which
  carries the event's orderID, and the outcome is RESERVED exactly when the decrement for
  the event was committed (FAILED exactly when nothing was committed and the table is as it
  was). When the broker write succeeds, that outcome is the one record the iteration
  publishes, on the topic of its status. When the write fails, nothing is published for the
  event, and a committed decrement stays.
\<close>

theorem outcome_correspondence:
  assumes "unmarshal m = Some event"
  shows "\<exists>out. orderId out = OrderID event
      \<and> (status out = ''RESERVED'' \<or> status out = ''FAILED'')
      \<and> broker (consumeOrderCreated_step unmarshal env (Some m) w) =
          broker w @
            (if write_err env then []
             else [(if status out = ''RESERVED'' then Topic_inventory_reserved
                    else Topic_inventory_failed, out)])
      \<and> (status out = ''RESERVED'' \<longleftrightarrow>
            committed (consumeOrderCreated_step unmarshal env (Some m) w) =
              committed w @ [Decremented (ProductID event) (Quantity event)])
      \<and> (status out = ''FAILED'' \<longleftrightarrow>
            committed (consumeOrderCreated_step unmarshal env (Some m) w) = committed w
            \<and> inventories (consumeOrderCreated_step unmarshal env (Some m) w) = inventories w)"
proof -
  let ?w' = "consumeOrderCreated_step unmarshal env (Some m) w"
  have step: "?w' = consumeOrderCreated_event env event w"
    using assms by (rule step_decoded)
  consider
    (missing) "query_err env \<or> fmlookup (inventories w) (ProductID event) = None"
    | (short) r where "\<not> query_err env" "fmlookup (inventories w) (ProductID event) = Some r"
        "row_quantity r < Quantity event"
    | (refused) r where "\<not> query_err env" "fmlookup (inventories w) (ProductID event) = Some r"
        "Quantity event \<le> row_quantity r" "exec_err env"
    | (reserved) r where "\<not> query_err env" "fmlookup (inventories w) (ProductID event) = Some r"
        "Quantity event \<le> row_quantity r" "\<not> exec_err env"
    by (cases "fmlookup (inventories w) (ProductID event)") force+
  then show ?thesis
  proof cases
    case missing
    show ?thesis
      unfolding step event_not_found [OF missing]
      by (rule exI [of _ "\<lparr>orderId = OrderID event, status = ''FAILED'', message = ''Product not found''\<rparr>"])
        simp
  next
    case short
    show ?thesis
      unfolding step event_not_enough [OF short(2,3,1)]
      by (rule exI [of _ "\<lparr>orderId = OrderID event, status = ''FAILED'', message = ''Not enough stock''\<rparr>"])
        simp
  next
    case refused
    show ?thesis
      unfolding step event_exec_failed [OF refused(2,3,1,4)]
      by (rule exI [of _
            "\<lparr>orderId = OrderID event, status = ''FAILED'', message = ''Cannot reserve inventory''\<rparr>"])
        simp
  next
    case reserved
    show ?thesis
      unfolding step event_reserved [OF reserved(2,3,1,4)]
      by (rule exI [of _
            "\<lparr>orderId = OrderID event, status = ''RESERVED'', message = ''Reserved successfully''\<rparr>"])
        simp
  qed
qed

text \<open>
  The theorem at order 1 for 5 units of product 42, in stock 10 times, with a working store
  and broker.
\<close>

theorem outcome_correspondence_witness:
  "Some (order_for 1 42 5) = Some (order_for 1 42 5)
   \<and> (\<exists>out. orderId out = OrderID (order_for 1 42 5)
      \<and> (status out = ''RESERVED'' \<or> status out = ''FAILED'')
      \<and> broker (consumeOrderCreated_step Some infra_ok (Some (order_for 1 42 5)) (stock_of 42 10)) =
          broker (stock_of 42 10) @
            (if write_err infra_ok then []
             else [(if status out = ''RESERVED'' then Topic_inventory_reserved
                    else Topic_inventory_failed, out)])
      \<and> (status out = ''RESERVED'' \<longleftrightarrow>
            committed (consumeOrderCreated_step Some infra_ok (Some (order_for 1 42 5)) (stock_of 42 10)) =
              committed (stock_of 42 10)
                @ [Decremented (ProductID (order_for 1 42 5)) (Quantity (order_for 1 42 5))])
      \<and> (status out = ''FAILED'' \<longleftrightarrow>
            committed (consumeOrderCreated_step Some infra_ok (Some (order_for 1 42 5)) (stock_of 42 10)) =
              committed (stock_of 42 10)
            \<and> inventories (consumeOrderCreated_step Some infra_ok (Some (order_for 1 42 5)) (stock_of 42 10)) =
              inventories (stock_of 42 10)))"
  using outcome_correspondence [of Some "order_for 1 42 5" "order_for 1 42 5" infra_ok "stock_of 42 10"]
  by simp

text \<open>
  C1 as stated fails when the broker write fails: the same order against the same stock has
  its decrement committed, and no outcome event is published.
\<close>

theorem outcome_correspondence_counterexample:
  "committed
     (consumeOrderCreated_step Some (infra_ok\<lparr>write_err := True\<rparr>) (Some (order_for 1 42 5)) (stock_of 42 10)) =
     [Decremented 42 5]
   \<and> fmlookup (inventories
       (consumeOrderCreated_step Some (infra_ok\<lparr>write_err := True\<rparr>) (Some (order_for 1 42 5)) (stock_of 42 10)))
       42 = Some \<lparr>row_quantity = 5, row_updated_at = 0\<rparr>
   \<and> broker
       (consumeOrderCreated_step Some (infra_ok\<lparr>write_err := True\<rparr>) (Some (order_for 1 42 5)) (stock_of 42 10)) =
       []"
  by (simp add: consumeOrderCreated_step_def model_defs example_defs)

subsection \<open>The read and the update are two statements\<close>

text \<open>
  Run one after the other, two orders for the last unit of product 42 end as scenario 4 of
  the spec says: one RESERVED, one FAILED "Not enough stock", quantity 0.
\<close>

lemma sequential_reservations_one_succeeds:
  "broker (consumeOrderCreated Some
       [(infra_ok, Some (order_for 1 42 1)), (infra_ok, Some (order_for 2 42 1))] (stock_of 42 1)) =
     [(Topic_inventory_reserved,
       \<lparr>orderId = 1, status = ''RESERVED'', message = ''Reserved successfully''\<rparr>),
      (Topic_inventory_failed,
       \<lparr>orderId = 2, status = ''FAILED'', message = ''Not enough stock''\<rparr>)]
   \<and> fmlookup (inventories (consumeOrderCreated Some
       [(infra_ok, Some (order_for 1 42 1)), (infra_ok, Some (order_for 2 42 1))] (stock_of 42 1))) 42 =
     Some \<lparr>row_quantity = 0, row_updated_at = 0\<rparr>"
  by (simp add: consumeOrderCreated_step_def model_defs example_defs)

text \<open>
  C2 says that the stock mutation is one atomic conditional update, which decrements only
  if the current quantity is at least the amount, so that two concurrent reservations
  against one remaining unit cannot both succeed. The code reads the quantity with one
  statement and decrements it with another, and its \<open>UPDATE\<close> carries no condition on the
  quantity. With one unit of product 42 in stock and two consumers that each hold an order
  for one unit, both reads done before either update, both orders are answered RESERVED,
  two decrements are committed and the stored quantity ends at -1. With one consumer and a
  PUT that sets the quantity to 0 between its read and its update, the order is answered
  RESERVED and the quantity is decremented from 0 to -1.
\<close>

theorem concurrent_reservations_both_succeed:
  "broker (two_consumers_reads_first infra_ok (order_for 1 42 1) infra_ok (order_for 2 42 1) (stock_of 42 1)) =
     [(Topic_inventory_reserved,
       \<lparr>orderId = 1, status = ''RESERVED'', message = ''Reserved successfully''\<rparr>),
      (Topic_inventory_reserved,
       \<lparr>orderId = 2, status = ''RESERVED'', message = ''Reserved successfully''\<rparr>)]
   \<and> committed (two_consumers_reads_first infra_ok (order_for 1 42 1) infra_ok (order_for 2 42 1) (stock_of 42 1)) =
     [Decremented 42 1, Decremented 42 1]
   \<and> fmlookup (inventories
       (two_consumers_reads_first infra_ok (order_for 1 42 1) infra_ok (order_for 2 42 1) (stock_of 42 1))) 42 =
     Some \<lparr>row_quantity = - 1, row_updated_at = 0\<rparr>
   \<and> broker (handler_between_read_and_update infra_ok (order_for 1 42 1)
       (updateInventory param_42 False 9 ''42'' \<lparr>inv_ProductID = 42, inv_Quantity = 0\<rparr>) (stock_of 42 1)) =
     [(Topic_inventory_reserved,
       \<lparr>orderId = 1, status = ''RESERVED'', message = ''Reserved successfully''\<rparr>)]
   \<and> committed (handler_between_read_and_update infra_ok (order_for 1 42 1)
       (updateInventory param_42 False 9 ''42'' \<lparr>inv_ProductID = 42, inv_Quantity = 0\<rparr>) (stock_of 42 1)) =
     [QuantitySet 42 0 9, Decremented 42 1]
   \<and> fmlookup (inventories (handler_between_read_and_update infra_ok (order_for 1 42 1)
       (updateInventory param_42 False 9 ''42'' \<lparr>inv_ProductID = 42, inv_Quantity = 0\<rparr>) (stock_of 42 1))) 42 =
     Some \<lparr>row_quantity = - 1, row_updated_at = 9\<rparr>"
  by (simp add: two_consumers_reads_first_def handler_between_read_and_update_def model_defs example_defs
      updateInventory_def Exec_set_quantity_def param_42_def)

subsection \<open>The scenarios of one order\<close>

text \<open>
  C3. When the product of a decoded order is in the table with a quantity \<open>Q\<close> of at least
  the ordered quantity \<open>q\<close>, and the read, the update and the broker write succeed, the
  iteration publishes a RESERVED outcome for the order and the stored quantity becomes
  \<open>Q - q\<close>; no other row changes.
\<close>

theorem reserve_sufficient_stock:
  assumes "unmarshal m = Some event"
    and "fmlookup (inventories w) (ProductID event) = Some r"
    and "Quantity event \<le> row_quantity r"
    and "\<not> query_err env" and "\<not> exec_err env" and "\<not> write_err env"
  shows "broker (consumeOrderCreated_step unmarshal env (Some m) w) =
           broker w @ [(Topic_inventory_reserved,
             \<lparr>orderId = OrderID event, status = ''RESERVED'', message = ''Reserved successfully''\<rparr>)]
       \<and> fmlookup (inventories (consumeOrderCreated_step unmarshal env (Some m) w)) (ProductID event) =
           Some (r\<lparr>row_quantity := row_quantity r - Quantity event\<rparr>)
       \<and> inventories (consumeOrderCreated_step unmarshal env (Some m) w) =
           fmupd (ProductID event) (r\<lparr>row_quantity := row_quantity r - Quantity event\<rparr>) (inventories w)"
  using assms by (simp add: step_decoded event_reserved)

text \<open>
  The theorem at scenario 1 of the spec: product 42 with quantity 10, an order for 5.
\<close>

theorem reserve_sufficient_stock_witness:
  "Some (order_for 1 42 5) = Some (order_for 1 42 5)
   \<and> fmlookup (inventories (stock_of 42 10)) (ProductID (order_for 1 42 5)) =
       Some \<lparr>row_quantity = 10, row_updated_at = 0\<rparr>
   \<and> Quantity (order_for 1 42 5) \<le> row_quantity \<lparr>row_quantity = 10, row_updated_at = 0\<rparr>
   \<and> \<not> query_err infra_ok \<and> \<not> exec_err infra_ok \<and> \<not> write_err infra_ok
   \<and> broker (consumeOrderCreated_step Some infra_ok (Some (order_for 1 42 5)) (stock_of 42 10)) =
       [(Topic_inventory_reserved,
         \<lparr>orderId = 1, status = ''RESERVED'', message = ''Reserved successfully''\<rparr>)]
   \<and> fmlookup (inventories (consumeOrderCreated_step Some infra_ok (Some (order_for 1 42 5)) (stock_of 42 10)))
       42 = Some \<lparr>row_quantity = 5, row_updated_at = 0\<rparr>"
  using reserve_sufficient_stock [of Some "order_for 1 42 5" "order_for 1 42 5" "stock_of 42 10"
      "\<lparr>row_quantity = 10, row_updated_at = 0\<rparr>" infra_ok]
  by (simp add: example_defs)

text \<open>
  C4. A rejected order leaves the table as it was and is answered with the matching
  reason (the broker write succeeding): a product that is read with a stored quantity
  below the ordered quantity gives FAILED "Not enough stock"; a product that is not in the
  table gives FAILED "Product not found"; neither commits a row mutation, and no iteration
  that publishes a FAILED outcome does.
\<close>

theorem rejected_event:
  assumes "unmarshal m = Some event" and "\<not> write_err env"
  shows "(\<forall>r. \<not> query_err env \<and> fmlookup (inventories w) (ProductID event) = Some r
            \<and> row_quantity r < Quantity event \<longrightarrow>
          broker (consumeOrderCreated_step unmarshal env (Some m) w) =
            broker w @ [(Topic_inventory_failed,
              \<lparr>orderId = OrderID event, status = ''FAILED'', message = ''Not enough stock''\<rparr>)]
          \<and> inventories (consumeOrderCreated_step unmarshal env (Some m) w) = inventories w
          \<and> committed (consumeOrderCreated_step unmarshal env (Some m) w) = committed w)
       \<and> (fmlookup (inventories w) (ProductID event) = None \<longrightarrow>
          broker (consumeOrderCreated_step unmarshal env (Some m) w) =
            broker w @ [(Topic_inventory_failed,
              \<lparr>orderId = OrderID event, status = ''FAILED'', message = ''Product not found''\<rparr>)]
          \<and> inventories (consumeOrderCreated_step unmarshal env (Some m) w) = inventories w
          \<and> committed (consumeOrderCreated_step unmarshal env (Some m) w) = committed w)
       \<and> (\<forall>t out. broker (consumeOrderCreated_step unmarshal env (Some m) w) = broker w @ [(t, out)]
            \<and> status out = ''FAILED'' \<longrightarrow>
          inventories (consumeOrderCreated_step unmarshal env (Some m) w) = inventories w
          \<and> committed (consumeOrderCreated_step unmarshal env (Some m) w) = committed w)"
proof -
  have step: "consumeOrderCreated_step unmarshal env (Some m) w = consumeOrderCreated_event env event w"
    using assms(1) by (rule step_decoded)
  have "\<forall>t out. broker (consumeOrderCreated_event env event w) = broker w @ [(t, out)]
            \<and> status out = ''FAILED'' \<longrightarrow>
          inventories (consumeOrderCreated_event env event w) = inventories w
          \<and> committed (consumeOrderCreated_event env event w) = committed w"
    using event_failed_unchanged by blast
  with assms(2) show ?thesis
    unfolding step by (simp add: event_not_enough event_not_found)
qed

text \<open>
  The theorem at scenarios 2 and 3 of the spec: product 42 with quantity 3 and an order
  for 5; an order for the unknown product 999.
\<close>

theorem rejected_event_witness:
  "\<not> write_err infra_ok \<and> \<not> query_err infra_ok
   \<and> fmlookup (inventories (stock_of 42 3)) (ProductID (order_for 1 42 5)) =
       Some \<lparr>row_quantity = 3, row_updated_at = 0\<rparr>
   \<and> row_quantity \<lparr>row_quantity = 3, row_updated_at = 0\<rparr> < Quantity (order_for 1 42 5)
   \<and> fmlookup (inventories (stock_of 42 3)) (ProductID (order_for 2 999 1)) = None
   \<and> broker (consumeOrderCreated_step Some infra_ok (Some (order_for 1 42 5)) (stock_of 42 3)) =
       [(Topic_inventory_failed, \<lparr>orderId = 1, status = ''FAILED'', message = ''Not enough stock''\<rparr>)]
   \<and> fmlookup (inventories (consumeOrderCreated_step Some infra_ok (Some (order_for 1 42 5)) (stock_of 42 3))) 42 =
       Some \<lparr>row_quantity = 3, row_updated_at = 0\<rparr>
   \<and> committed (consumeOrderCreated_step Some infra_ok (Some (order_for 1 42 5)) (stock_of 42 3)) = []
   \<and> broker (consumeOrderCreated_step Some infra_ok (Some (order_for 2 999 1)) (stock_of 42 3)) =
       [(Topic_inventory_failed, \<lparr>orderId = 2, status = ''FAILED'', message = ''Product not found''\<rparr>)]
   \<and> inventories (consumeOrderCreated_step Some infra_ok (Some (order_for 2 999 1)) (stock_of 42 3)) =
       inventories (stock_of 42 3)
   \<and> committed (consumeOrderCreated_step Some infra_ok (Some (order_for 2 999 1)) (stock_of 42 3)) = []"
  using rejected_event [of Some "order_for 1 42 5" "order_for 1 42 5" infra_ok "stock_of 42 3"]
    rejected_event [of Some "order_for 2 999 1" "order_for 2 999 1" infra_ok "stock_of 42 3"]
  by (simp add: example_defs)

subsection \<open>Non-negative quantities\<close>

lemma quantity_nonneg_event:
  assumes "quantity_nonneg w"
  shows "quantity_nonneg (consumeOrderCreated_event env event w)"
proof -
  consider
    (missing) "query_err env \<or> fmlookup (inventories w) (ProductID event) = None"
    | (short) r where "\<not> query_err env" "fmlookup (inventories w) (ProductID event) = Some r"
        "row_quantity r < Quantity event"
    | (refused) r where "\<not> query_err env" "fmlookup (inventories w) (ProductID event) = Some r"
        "Quantity event \<le> row_quantity r" "exec_err env"
    | (reserved) r where "\<not> query_err env" "fmlookup (inventories w) (ProductID event) = Some r"
        "Quantity event \<le> row_quantity r" "\<not> exec_err env"
    by (cases "fmlookup (inventories w) (ProductID event)") force+
  then show ?thesis
  proof cases
    case missing
    with assms show ?thesis by (simp add: event_not_found quantity_nonneg_def)
  next
    case short
    with assms show ?thesis by (simp add: event_not_enough quantity_nonneg_def)
  next
    case refused
    with assms show ?thesis by (simp add: event_exec_failed quantity_nonneg_def)
  next
    case reserved
    have "fmpred (\<lambda>pid r. 0 \<le> row_quantity r)
        (fmupd (ProductID event) (r\<lparr>row_quantity := row_quantity r - Quantity event\<rparr>) (inventories w))"
      using assms reserved(3) unfolding quantity_nonneg_def by (intro fmpred_upd) simp_all
    with reserved show ?thesis by (simp add: event_reserved quantity_nonneg_def)
  qed
qed

lemma quantity_nonneg_step:
  assumes "quantity_nonneg w"
  shows "quantity_nonneg (consumeOrderCreated_step unmarshal env rd w)"
proof (cases rd)
  case None
  with assms show ?thesis
    by (simp add: consumeOrderCreated_step_def log_Println_def quantity_nonneg_def)
next
  case (Some m)
  with assms show ?thesis
    by (cases "unmarshal m")
      (simp_all add: consumeOrderCreated_step_def log_Println_def quantity_nonneg_event,
        simp add: quantity_nonneg_def)
qed

lemma quantity_nonneg_run:
  "quantity_nonneg w \<Longrightarrow> quantity_nonneg (consumeOrderCreated unmarshal ds w)"
  by (induction unmarshal ds w rule: consumeOrderCreated.induct) (simp_all add: quantity_nonneg_step)

lemma quantity_nonneg_update:
  assumes "quantity_nonneg w" and "0 \<le> inv_Quantity inventory"
  shows "quantity_nonneg (snd (updateInventory param fails now productID inventory w))"
  using assms
  by (auto simp add: updateInventory_def Exec_set_quantity_def quantity_nonneg_def
      split: option.splits intro: fmpred_upd)

lemma quantity_nonneg_create:
  assumes "quantity_nonneg w" and "0 \<le> inv_Quantity inventory"
  shows "quantity_nonneg (snd (createInventory fails now inventory w))"
  using assms
  by (auto simp add: createInventory_def Exec_insert_def quantity_nonneg_def
      split: option.splits intro: fmpred_upd)

text \<open>
  C5, as the code has it. A table whose quantities are all at least 0 stays so through any
  number of iterations of the consumer loop, as long as no other write comes between the
  read and the update of an iteration, and through the update and the create handler when
  the quantity of the request body is at least 0. The handlers store the body's quantity
  as it comes.
\<close>

theorem quantity_nonneg_preserved:
  assumes "quantity_nonneg w"
  shows "quantity_nonneg (consumeOrderCreated unmarshal ds w)
       \<and> (0 \<le> inv_Quantity inventory \<longrightarrow>
            quantity_nonneg (snd (updateInventory param fails now productID inventory w)))
       \<and> (0 \<le> inv_Quantity inventory \<longrightarrow>
            quantity_nonneg (snd (createInventory fails now inventory w)))"
  using assms by (simp add: quantity_nonneg_run quantity_nonneg_update quantity_nonneg_create)

text \<open>
  The theorem at product 42 with quantity 10, two deliveries of an order for 7 and a request
  body with quantity 7.
\<close>

theorem quantity_nonneg_preserved_witness:
  "quantity_nonneg (stock_of 42 10)
   \<and> 0 \<le> inv_Quantity \<lparr>inv_ProductID = 43, inv_Quantity = 7\<rparr>
   \<and> quantity_nonneg (consumeOrderCreated Some
        [(infra_ok, Some (order_for 1 42 7)), (infra_ok, Some (order_for 1 42 7))] (stock_of 42 10))
   \<and> quantity_nonneg (snd (updateInventory param_42 False 1 ''42''
        \<lparr>inv_ProductID = 43, inv_Quantity = 7\<rparr> (stock_of 42 10)))
   \<and> quantity_nonneg (snd (createInventory False 1 \<lparr>inv_ProductID = 43, inv_Quantity = 7\<rparr> (stock_of 42 10)))"
proof -
  have start: "quantity_nonneg (stock_of 42 10)"
    by (simp add: quantity_nonneg_def stock_of_def fmpred_iff)
  show ?thesis
    using start
      quantity_nonneg_preserved [OF start, of Some
        "[(infra_ok, Some (order_for 1 42 7)), (infra_ok, Some (order_for 1 42 7))]"
        "\<lparr>inv_ProductID = 43, inv_Quantity = 7\<rparr>" param_42 False 1 "''42''"]
    by simp
qed

text \<open>
  C5 as stated fails at the handlers: a PUT for product 42 whose body has quantity -5
  commits -5, and so does a POST of a new product 43 with quantity -5.
\<close>

theorem quantity_nonneg_counterexample:
  "quantity_nonneg (stock_of 42 10)
   \<and> fmlookup (inventories (snd (updateInventory param_42 False 1 ''42''
        \<lparr>inv_ProductID = 42, inv_Quantity = - 5\<rparr> (stock_of 42 10)))) 42 =
       Some \<lparr>row_quantity = - 5, row_updated_at = 1\<rparr>
   \<and> \<not> quantity_nonneg (snd (updateInventory param_42 False 1 ''42''
        \<lparr>inv_ProductID = 42, inv_Quantity = - 5\<rparr> (stock_of 42 10)))
   \<and> \<not> quantity_nonneg (snd (createInventory False 1
        \<lparr>inv_ProductID = 43, inv_Quantity = - 5\<rparr> (stock_of 42 10)))"
proof -
  have "quantity_nonneg (stock_of 42 10)"
    by (simp add: quantity_nonneg_def stock_of_def fmpred_iff)
  moreover have "fmlookup (inventories (snd (updateInventory param_42 False 1 ''42''
        \<lparr>inv_ProductID = 42, inv_Quantity = - 5\<rparr> (stock_of 42 10)))) 42 =
       Some \<lparr>row_quantity = - 5, row_updated_at = 1\<rparr>"
    by (simp add: stock_of_def updateInventory_def Exec_set_quantity_def param_42_def)
  moreover from this have "\<not> quantity_nonneg (snd (updateInventory param_42 False 1 ''42''
        \<lparr>inv_ProductID = 42, inv_Quantity = - 5\<rparr> (stock_of 42 10)))"
    unfolding quantity_nonneg_def by (auto dest: fmpredD)
  moreover have "fmlookup (inventories (snd (createInventory False 1
        \<lparr>inv_ProductID = 43, inv_Quantity = - 5\<rparr> (stock_of 42 10)))) 43 =
       Some \<lparr>row_quantity = - 5, row_updated_at = 1\<rparr>"
    by (simp add: stock_of_def createInventory_def Exec_insert_def)
  then have "\<not> quantity_nonneg (snd (createInventory False 1
        \<lparr>inv_ProductID = 43, inv_Quantity = - 5\<rparr> (stock_of 42 10)))"
    unfolding quantity_nonneg_def by (auto dest: fmpredD)
  ultimately show ?thesis by simp
qed

subsection \<open>Redelivery\<close>

text \<open>
  C6, as the code has it. The loop keeps no record of the orders it has processed, so a
  second delivery of an order that was reserved is processed like the first. With the
  store answering: when the remaining quantity is still at least the ordered quantity, it
  is decremented again and the duplicate is answered RESERVED again; otherwise the
  duplicate is answered FAILED "Not enough stock" and the table keeps the first decrement
  only. Each of the two answers reaches its topic when the broker write of its iteration
  succeeds.
\<close>

theorem redelivery_decrements_again:
  assumes "unmarshal m = Some event"
    and "fmlookup (inventories w) (ProductID event) = Some r"
    and "Quantity event \<le> row_quantity r"
    and "\<not> query_err env1" and "\<not> exec_err env1"
    and "\<not> query_err env2" and "\<not> exec_err env2"
  shows "fmlookup (inventories (consumeOrderCreated unmarshal [(env1, Some m), (env2, Some m)] w))
           (ProductID event) =
           Some (r\<lparr>row_quantity :=
             (if Quantity event \<le> row_quantity r - Quantity event
              then row_quantity r - Quantity event - Quantity event
              else row_quantity r - Quantity event)\<rparr>)
       \<and> inventories (consumeOrderCreated unmarshal [(env1, Some m), (env2, Some m)] w) =
           fmupd (ProductID event)
             (r\<lparr>row_quantity :=
               (if Quantity event \<le> row_quantity r - Quantity event
                then row_quantity r - Quantity event - Quantity event
                else row_quantity r - Quantity event)\<rparr>)
             (inventories w)
       \<and> committed (consumeOrderCreated unmarshal [(env1, Some m), (env2, Some m)] w) =
           committed w @
             (if Quantity event \<le> row_quantity r - Quantity event
              then [Decremented (ProductID event) (Quantity event),
                    Decremented (ProductID event) (Quantity event)]
              else [Decremented (ProductID event) (Quantity event)])
       \<and> broker (consumeOrderCreated unmarshal [(env1, Some m), (env2, Some m)] w) =
           broker w
           @ (if write_err env1 then []
              else [(Topic_inventory_reserved,
                     \<lparr>orderId = OrderID event, status = ''RESERVED'',
                        message = ''Reserved successfully''\<rparr>)])
           @ (if write_err env2 then []
              else if Quantity event \<le> row_quantity r - Quantity event
              then [(Topic_inventory_reserved,
                     \<lparr>orderId = OrderID event, status = ''RESERVED'',
                        message = ''Reserved successfully''\<rparr>)]
              else [(Topic_inventory_failed,
                     \<lparr>orderId = OrderID event, status = ''FAILED'',
                        message = ''Not enough stock''\<rparr>)])
       \<and> logs (consumeOrderCreated unmarshal [(env1, Some m), (env2, Some m)] w) =
           logs w @ [LogReceived event, LogReserved (OrderID event), LogReceived event,
             if Quantity event \<le> row_quantity r - Quantity event
             then LogReserved (OrderID event) else LogNotEnough (OrderID event)]"
proof -
  let ?r1 = "r\<lparr>row_quantity := row_quantity r - Quantity event\<rparr>"
  let ?w1 = "consumeOrderCreated_step unmarshal env1 (Some m) w"
  have first: "?w1 = consumeOrderCreated_event env1 event w"
    using assms(1) by (rule step_decoded)
  have row1: "fmlookup (inventories ?w1) (ProductID event) = Some ?r1"
    and tab1: "inventories ?w1 = fmupd (ProductID event) ?r1 (inventories w)"
    and log1: "committed ?w1 = committed w @ [Decremented (ProductID event) (Quantity event)]"
    and pub1: "broker ?w1 = broker w @
        (if write_err env1 then []
         else [(Topic_inventory_reserved,
                \<lparr>orderId = OrderID event, status = ''RESERVED'',
                   message = ''Reserved successfully''\<rparr>)])"
    and out1: "logs ?w1 = logs w @ [LogReceived event, LogReserved (OrderID event)]"
    unfolding first event_reserved [OF assms(2,3,4,5)] by simp_all
  have run: "consumeOrderCreated unmarshal [(env1, Some m), (env2, Some m)] w =
      consumeOrderCreated_event env2 event ?w1"
    using assms(1) by (simp add: step_decoded)
  show ?thesis
  proof (cases "Quantity event \<le> row_quantity r - Quantity event")
    case True
    then have enough: "Quantity event \<le> row_quantity ?r1" by simp
    show ?thesis
      unfolding run event_reserved [OF row1 enough assms(6,7)]
      using True tab1 log1 pub1 out1 by simp
  next
    case False
    then have short: "row_quantity ?r1 < Quantity event" by simp
    show ?thesis
      unfolding run event_not_enough [OF row1 short assms(6)]
      using False row1 tab1 log1 pub1 out1 by simp
  qed
qed

text \<open>
  The theorem at product 42 with quantity 10: order 1 for 5, delivered twice (the duplicate
  is reserved again), and order 2 for 7, delivered twice (the duplicate is rejected).
\<close>

theorem redelivery_decrements_again_witness:
  "Some (order_for 1 42 5) = Some (order_for 1 42 5) \<and> Some (order_for 2 42 7) = Some (order_for 2 42 7)
   \<and> fmlookup (inventories (stock_of 42 10)) (ProductID (order_for 1 42 5)) =
       Some \<lparr>row_quantity = 10, row_updated_at = 0\<rparr>
   \<and> fmlookup (inventories (stock_of 42 10)) (ProductID (order_for 2 42 7)) =
       Some \<lparr>row_quantity = 10, row_updated_at = 0\<rparr>
   \<and> Quantity (order_for 1 42 5) \<le> row_quantity \<lparr>row_quantity = 10, row_updated_at = 0\<rparr>
   \<and> Quantity (order_for 2 42 7) \<le> row_quantity \<lparr>row_quantity = 10, row_updated_at = 0\<rparr>
   \<and> \<not> query_err infra_ok \<and> \<not> exec_err infra_ok
   \<and> fmlookup (inventories (consumeOrderCreated Some
         [(infra_ok, Some (order_for 1 42 5)), (infra_ok, Some (order_for 1 42 5))] (stock_of 42 10))) 42 =
       Some \<lparr>row_quantity = 0, row_updated_at = 0\<rparr>
   \<and> committed (consumeOrderCreated Some
         [(infra_ok, Some (order_for 1 42 5)), (infra_ok, Some (order_for 1 42 5))] (stock_of 42 10)) =
       [Decremented 42 5, Decremented 42 5]
   \<and> broker (consumeOrderCreated Some
         [(infra_ok, Some (order_for 1 42 5)), (infra_ok, Some (order_for 1 42 5))] (stock_of 42 10)) =
       [(Topic_inventory_reserved,
         \<lparr>orderId = 1, status = ''RESERVED'', message = ''Reserved successfully''\<rparr>),
        (Topic_inventory_reserved,
         \<lparr>orderId = 1, status = ''RESERVED'', message = ''Reserved successfully''\<rparr>)]
   \<and> fmlookup (inventories (consumeOrderCreated Some
         [(infra_ok, Some (order_for 2 42 7)), (infra_ok, Some (order_for 2 42 7))] (stock_of 42 10))) 42 =
       Some \<lparr>row_quantity = 3, row_updated_at = 0\<rparr>
   \<and> committed (consumeOrderCreated Some
         [(infra_ok, Some (order_for 2 42 7)), (infra_ok, Some (order_for 2 42 7))] (stock_of 42 10)) =
       [Decremented 42 7]
   \<and> broker (consumeOrderCreated Some
         [(infra_ok, Some (order_for 2 42 7)), (infra_ok, Some (order_for 2 42 7))] (stock_of 42 10)) =
       [(Topic_inventory_reserved,
         \<lparr>orderId = 2, status = ''RESERVED'', message = ''Reserved successfully''\<rparr>),
        (Topic_inventory_failed,
         \<lparr>orderId = 2, status = ''FAILED'', message = ''Not enough stock''\<rparr>)]
   \<and> logs (consumeOrderCreated Some
         [(infra_ok, Some (order_for 2 42 7)), (infra_ok, Some (order_for 2 42 7))] (stock_of 42 10)) =
       [LogReceived (order_for 2 42 7), LogReserved 2, LogReceived (order_for 2 42 7), LogNotEnough 2]"
  using redelivery_decrements_again [of Some "order_for 1 42 5" "order_for 1 42 5" "stock_of 42 10"
      "\<lparr>row_quantity = 10, row_updated_at = 0\<rparr>" infra_ok infra_ok]
    redelivery_decrements_again [of Some "order_for 2 42 7" "order_for 2 42 7" "stock_of 42 10"
      "\<lparr>row_quantity = 10, row_updated_at = 0\<rparr>" infra_ok infra_ok]
  by (simp add: example_defs)

text \<open>
  C6 as stated fails there: the two deliveries of order 1 commit two decrements, publish
  two RESERVED outcomes and leave quantity 0.
\<close>

theorem redelivery_counterexample:
  "fmlookup (inventories (consumeOrderCreated Some
       [(infra_ok, Some (order_for 1 42 5)), (infra_ok, Some (order_for 1 42 5))] (stock_of 42 10))) 42 =
     Some \<lparr>row_quantity = 0, row_updated_at = 0\<rparr>
   \<and> committed (consumeOrderCreated Some
       [(infra_ok, Some (order_for 1 42 5)), (infra_ok, Some (order_for 1 42 5))] (stock_of 42 10)) =
     [Decremented 42 5, Decremented 42 5]
   \<and> broker (consumeOrderCreated Some
       [(infra_ok, Some (order_for 1 42 5)), (infra_ok, Some (order_for 1 42 5))] (stock_of 42 10)) =
     [(Topic_inventory_reserved,
       \<lparr>orderId = 1, status = ''RESERVED'', message = ''Reserved successfully''\<rparr>),
      (Topic_inventory_reserved,
       \<lparr>orderId = 1, status = ''RESERVED'', message = ''Reserved successfully''\<rparr>)]"
  by (simp add: consumeOrderCreated_step_def model_defs example_defs)

subsection \<open>Orders for a quantity that is not positive\<close>

text \<open>
  C7, as the code has it. The loop validates nothing: an order whose quantity is zero or
  negative takes the same read, comparison and update as any other, and is answered from
  the table. With the store and the broker answering: when its product is in the table
  with a quantity \<open>Q\<close> of at least 0, it is answered RESERVED, the decrement is committed
  and the stored quantity becomes \<open>Q - q\<close>, which is not below \<open>Q\<close>; when its product is
  not in the table, it is answered FAILED "Product not found".
\<close>

theorem nonpositive_quantity_processed:
  assumes "unmarshal m = Some event"
    and "Quantity event \<le> 0"
    and "\<not> query_err env" and "\<not> exec_err env" and "\<not> write_err env"
  shows "(\<forall>r. fmlookup (inventories w) (ProductID event) = Some r \<and> 0 \<le> row_quantity r \<longrightarrow>
          broker (consumeOrderCreated_step unmarshal env (Some m) w) =
            broker w @ [(Topic_inventory_reserved,
              \<lparr>orderId = OrderID event, status = ''RESERVED'', message = ''Reserved successfully''\<rparr>)]
          \<and> committed (consumeOrderCreated_step unmarshal env (Some m) w) =
              committed w @ [Decremented (ProductID event) (Quantity event)]
          \<and> fmlookup (inventories (consumeOrderCreated_step unmarshal env (Some m) w)) (ProductID event) =
              Some (r\<lparr>row_quantity := row_quantity r - Quantity event\<rparr>)
          \<and> row_quantity r \<le> row_quantity r - Quantity event)
       \<and> (fmlookup (inventories w) (ProductID event) = None \<longrightarrow>
          broker (consumeOrderCreated_step unmarshal env (Some m) w) =
            broker w @ [(Topic_inventory_failed,
              \<lparr>orderId = OrderID event, status = ''FAILED'', message = ''Product not found''\<rparr>)])"
proof -
  have step: "consumeOrderCreated_step unmarshal env (Some m) w = consumeOrderCreated_event env event w"
    using assms(1) by (rule step_decoded)
  have enough: "Quantity event \<le> row_quantity r" if "0 \<le> row_quantity r" for r
    using that assms(2) by linarith
  show ?thesis
    unfolding step using assms(2-) enough
    by (simp add: event_reserved event_not_found)
qed

text \<open>
  The theorem at an order for -5 units of product 42, in stock 10 times, and at an order for
  0 units of the unknown product 999.
\<close>

theorem nonpositive_quantity_processed_witness:
  "Quantity (order_for 1 42 (- 5)) \<le> 0 \<and> Quantity (order_for 2 999 0) \<le> 0
   \<and> \<not> query_err infra_ok \<and> \<not> exec_err infra_ok \<and> \<not> write_err infra_ok
   \<and> fmlookup (inventories (stock_of 42 10)) (ProductID (order_for 1 42 (- 5))) =
       Some \<lparr>row_quantity = 10, row_updated_at = 0\<rparr>
   \<and> 0 \<le> row_quantity \<lparr>row_quantity = 10, row_updated_at = 0\<rparr>
   \<and> fmlookup (inventories (stock_of 42 10)) (ProductID (order_for 2 999 0)) = None
   \<and> broker (consumeOrderCreated_step Some infra_ok (Some (order_for 1 42 (- 5))) (stock_of 42 10)) =
       [(Topic_inventory_reserved,
         \<lparr>orderId = 1, status = ''RESERVED'', message = ''Reserved successfully''\<rparr>)]
   \<and> committed (consumeOrderCreated_step Some infra_ok (Some (order_for 1 42 (- 5))) (stock_of 42 10)) =
       [Decremented 42 (- 5)]
   \<and> fmlookup (inventories (consumeOrderCreated_step Some infra_ok (Some (order_for 1 42 (- 5))) (stock_of 42 10)))
       42 = Some \<lparr>row_quantity = 15, row_updated_at = 0\<rparr>
   \<and> broker (consumeOrderCreated_step Some infra_ok (Some (order_for 2 999 0)) (stock_of 42 10)) =
       [(Topic_inventory_failed,
         \<lparr>orderId = 2, status = ''FAILED'', message = ''Product not found''\<rparr>)]"
  using nonpositive_quantity_processed [of Some "order_for 1 42 (- 5)" "order_for 1 42 (- 5)"
      infra_ok "stock_of 42 10"]
    nonpositive_quantity_processed [of Some "order_for 2 999 0" "order_for 2 999 0"
      infra_ok "stock_of 42 10"]
  by (simp add: example_defs)

text \<open>
  C7 as stated fails there: the order for -5 units is answered RESERVED, not FAILED
  "invalid event", and the table is written (quantity 15); an order for 0 units is
  answered RESERVED too.
\<close>

theorem invalid_event_counterexample:
  "broker (consumeOrderCreated_step Some infra_ok (Some (order_for 1 42 (- 5))) (stock_of 42 10)) =
     [(Topic_inventory_reserved,
       \<lparr>orderId = 1, status = ''RESERVED'', message = ''Reserved successfully''\<rparr>)]
   \<and> fmlookup (inventories (consumeOrderCreated_step Some infra_ok (Some (order_for 1 42 (- 5))) (stock_of 42 10)))
       42 = Some \<lparr>row_quantity = 15, row_updated_at = 0\<rparr>
   \<and> broker (consumeOrderCreated_step Some infra_ok (Some (order_for 2 42 0)) (stock_of 42 10)) =
     [(Topic_inventory_reserved,
       \<lparr>orderId = 2, status = ''RESERVED'', message = ''Reserved successfully''\<rparr>)]"
  by (simp add: consumeOrderCreated_step_def model_defs example_defs)

subsection \<open>Failures of the store\<close>

text \<open>
  C8, as the code has it. When the read found enough stock and the update then fails at
  the store, the outcome is FAILED with message "Cannot reserve inventory", which is
  neither "Not enough stock" nor "Product not found"; the table is unchanged.
\<close>

theorem update_failure_outcome:
  assumes "unmarshal m = Some event"
    and "fmlookup (inventories w) (ProductID event) = Some r"
    and "Quantity event \<le> row_quantity r"
    and "\<not> query_err env" and "exec_err env" and "\<not> write_err env"
  shows "broker (consumeOrderCreated_step unmarshal env (Some m) w) =
           broker w @ [(Topic_inventory_failed,
             \<lparr>orderId = OrderID event, status = ''FAILED'', message = ''Cannot reserve inventory''\<rparr>)]
       \<and> ''Cannot reserve inventory'' \<noteq> ''Not enough stock''
       \<and> ''Cannot reserve inventory'' \<noteq> ''Product not found''
       \<and> inventories (consumeOrderCreated_step unmarshal env (Some m) w) = inventories w
       \<and> committed (consumeOrderCreated_step unmarshal env (Some m) w) = committed w"
  using assms by (simp add: step_decoded event_exec_failed)

text \<open>
  The theorem at order 1 for 5 units of product 42, in stock 10 times, the update failing.
\<close>

theorem update_failure_outcome_witness:
  "Some (order_for 1 42 5) = Some (order_for 1 42 5)
   \<and> fmlookup (inventories (stock_of 42 10)) (ProductID (order_for 1 42 5)) =
       Some \<lparr>row_quantity = 10, row_updated_at = 0\<rparr>
   \<and> Quantity (order_for 1 42 5) \<le> row_quantity \<lparr>row_quantity = 10, row_updated_at = 0\<rparr>
   \<and> \<not> query_err (infra_ok\<lparr>exec_err := True\<rparr>) \<and> exec_err (infra_ok\<lparr>exec_err := True\<rparr>)
   \<and> \<not> write_err (infra_ok\<lparr>exec_err := True\<rparr>)
   \<and> broker (consumeOrderCreated_step Some (infra_ok\<lparr>exec_err := True\<rparr>)
         (Some (order_for 1 42 5)) (stock_of 42 10)) =
       [(Topic_inventory_failed,
         \<lparr>orderId = 1, status = ''FAILED'', message = ''Cannot reserve inventory''\<rparr>)]
   \<and> inventories (consumeOrderCreated_step Some (infra_ok\<lparr>exec_err := True\<rparr>)
         (Some (order_for 1 42 5)) (stock_of 42 10)) = inventories (stock_of 42 10)
   \<and> committed (consumeOrderCreated_step Some (infra_ok\<lparr>exec_err := True\<rparr>)
         (Some (order_for 1 42 5)) (stock_of 42 10)) = []"
  using update_failure_outcome [of Some "order_for 1 42 5" "order_for 1 42 5" "stock_of 42 10"
      "\<lparr>row_quantity = 10, row_updated_at = 0\<rparr>" "infra_ok\<lparr>exec_err := True\<rparr>"]
  by (simp add: example_defs)

text \<open>
  C8 as stated fails: a failing update is answered "Cannot reserve inventory" and a
  failing read "Product not found"; neither message is "transient error".
\<close>

theorem transient_error_counterexample:
  "broker (consumeOrderCreated_step Some (infra_ok\<lparr>exec_err := True\<rparr>)
       (Some (order_for 1 42 5)) (stock_of 42 10)) =
     [(Topic_inventory_failed,
       \<lparr>orderId = 1, status = ''FAILED'', message = ''Cannot reserve inventory''\<rparr>)]
   \<and> broker (consumeOrderCreated_step Some (infra_ok\<lparr>query_err := True\<rparr>)
       (Some (order_for 1 42 5)) (stock_of 42 10)) =
     [(Topic_inventory_failed,
       \<lparr>orderId = 1, status = ''FAILED'', message = ''Product not found''\<rparr>)]
   \<and> ''Cannot reserve inventory'' \<noteq> ''transient error''
   \<and> ''Product not found'' \<noteq> ''transient error''"
  by (simp add: consumeOrderCreated_step_def model_defs example_defs)

subsection \<open>Failures of the broker\<close>

text \<open>
  C9, as the code has it. A publish whose write fails returns nothing to the consumer
  loop and leaves the world as it was: no record, no log line. An iteration whose write
  fails differs from the one whose write succeeds in the missing record only.
\<close>

theorem publish_failure_discarded:
  "publishInventoryReserved True orderID msg w = w
   \<and> publishInventoryFailed True orderID msg w = w
   \<and> consumeOrderCreated_step unmarshal (env\<lparr>write_err := True\<rparr>) rd w =
       (consumeOrderCreated_step unmarshal (env\<lparr>write_err := False\<rparr>) rd w)\<lparr>broker := broker w\<rparr>"
proof -
  have pub: "publishInventoryReserved True orderID msg w = w"
    "publishInventoryFailed True orderID msg w = w"
    by (simp_all add: publishInventoryReserved_def publishInventoryFailed_def WriteMessages_def)
  have ev: "consumeOrderCreated_event (env\<lparr>write_err := True\<rparr>) event w =
      (consumeOrderCreated_event (env\<lparr>write_err := False\<rparr>) event w)\<lparr>broker := broker w\<rparr>" for event
    by (cases "query_err env"; cases "exec_err env"; cases "fmlookup (inventories w) (ProductID event)")
      (simp_all add: model_defs)
  have "consumeOrderCreated_step unmarshal (env\<lparr>write_err := True\<rparr>) rd w =
      (consumeOrderCreated_step unmarshal (env\<lparr>write_err := False\<rparr>) rd w)\<lparr>broker := broker w\<rparr>"
    by (simp add: consumeOrderCreated_step_def ev log_Println_def split: option.splits)
  with pub show ?thesis by simp
qed

text \<open>
  C9 as stated fails: the write returns an error, and the publisher's caller gets back
  the world unchanged, for either topic.
\<close>

theorem publish_failure_counterexample:
  "fst (WriteMessages True Topic_inventory_failed
      \<lparr>orderId = 1, status = ''FAILED'', message = ''Not enough stock''\<rparr> (stock_of 42 3)) = Some ErrBroker
   \<and> publishInventoryFailed True 1 ''Not enough stock'' (stock_of 42 3) = stock_of 42 3
   \<and> fst (WriteMessages True Topic_inventory_reserved
      \<lparr>orderId = 1, status = ''RESERVED'', message = ''Reserved successfully''\<rparr> (stock_of 42 3)) = Some ErrBroker
   \<and> publishInventoryReserved True 1 ''Reserved successfully'' (stock_of 42 3) = stock_of 42 3"
  by (simp add: publishInventoryReserved_def publishInventoryFailed_def WriteMessages_def)

subsection \<open>The HTTP read\<close>

text \<open>
  C10. A GET of an existing product answers 200 with \<open>available\<close> true exactly when the
  stored quantity is greater than 0, and \<open>quantity\<close> the stored quantity; the one other
  answer is the 404 of a read that failed at the store, which has neither field.
\<close>

theorem getInventory_existing:
  assumes "param productID = Some pid"
    and "fmlookup (inventories w) pid = Some r"
  shows "getInventory param fails productID w =
           (if fails then http_Error ''Product not found'' 404
            else \<lparr>status_code = 200,
                  payload = AvailableQuantity (0 < row_quantity r) (row_quantity r)\<rparr>)"
  using assms by (simp add: getInventory_def QueryRow_quantity_def)

text \<open>The theorem at a GET of product 42, in stock 10 times and then 0 times.\<close>

theorem getInventory_existing_witness:
  "param_42 ''42'' = Some 42
   \<and> fmlookup (inventories (stock_of 42 10)) 42 = Some \<lparr>row_quantity = 10, row_updated_at = 0\<rparr>
   \<and> getInventory param_42 False ''42'' (stock_of 42 10) =
       \<lparr>status_code = 200, payload = AvailableQuantity True 10\<rparr>
   \<and> fmlookup (inventories (stock_of 42 0)) 42 = Some \<lparr>row_quantity = 0, row_updated_at = 0\<rparr>
   \<and> getInventory param_42 False ''42'' (stock_of 42 0) =
       \<lparr>status_code = 200, payload = AvailableQuantity False 0\<rparr>"
  using getInventory_existing [of param_42 "''42''" 42 "stock_of 42 10"
      "\<lparr>row_quantity = 10, row_updated_at = 0\<rparr>" False]
    getInventory_existing [of param_42 "''42''" 42 "stock_of 42 0"
      "\<lparr>row_quantity = 0, row_updated_at = 0\<rparr>" False]
  by (simp add: param_42_def stock_of_def)

end
